theory Spec2Isabelle
  imports Main "HOL-Library.Word" "HOL-Library.Char_ord" "HOL-Library.List_Lexorder"
    "HOL-Library.AList"
begin

unbundle bit_operations_syntax

section \<open>The container lifecycle manager of runsc\<close>

text \<open>
  A shallow embedding of \<^verbatim>\<open>runsc/container/container.go\<close> and of the exit path of
  \<^verbatim>\<open>runsc/main.go\<close>. Every verb is a function of the host state (the file system and
  the process table) that returns its Go result together with the host state it leaves.
  A Go run-time panic (a nil-pointer dereference) is an outcome of its own, distinct from
  a returned error. Logging is not modelled.
\<close>

subsection \<open>Errors and outcomes\<close>

text \<open>Failures of the operating-system calls the package makes.\<close>

datatype errno = ENOENT | ENOTDIR | EISDIR

text \<open>
  The errors the package returns, one constructor for each \<^verbatim>\<open>fmt.Errorf\<close> site and
  one for each error it passes on from a collaborator.
\<close>

datatype error =
    InvalidID string
  | InvalidSpec
  | AlreadyExists string
  | NotExist string
  | NoMetadataFile string
  | ReadFailed errno
  | Corrupt
  | ReadDirFailed errno
  | SandboxFailure
  | MkdirFailed errno
  | MarshalFailed
  | WriteFailed errno
  | PidFileFailed errno

datatype 'a outcome = Ok 'a | Err error | Panic

subsection \<open>validateID\<close>

text \<open>
  \<^verbatim>\<open>regexp.MustCompile(`^[\w+-\.]+$`)\<close>. Go's \<^verbatim>\<open>regexp/syntax\<close> reads the bracket
  expression from left to right: the Perl class \<^verbatim>\<open>\w\<close>, then the character \<^verbatim>\<open>+\<close>, which
  is followed by an unescaped \<^verbatim>\<open>-\<close> and the escaped character \<^verbatim>\<open>\.\<close>, and is therefore
  the lower end of the range from \<^verbatim>\<open>+\<close> (0x2B) to \<^verbatim>\<open>.\<close> (0x2E). The class is repeated
  one or more times between the anchors; without the \<^verbatim>\<open>m\<close> flag \<^verbatim>\<open>$\<close> is the end of the
  text. \<^verbatim>\<open>\w\<close> is ASCII only, so a byte above 0x7F never matches and matching bytes is
  matching runes.
\<close>

datatype class_item = Perl_w | CRange char char

fun in_item :: "class_item \<Rightarrow> char \<Rightarrow> bool" where
  "in_item Perl_w c =
     ((CHR ''0'' \<le> c \<and> c \<le> CHR ''9'') \<or> (CHR ''A'' \<le> c \<and> c \<le> CHR ''Z'') \<or>
      c = CHR ''_'' \<or> (CHR ''a'' \<le> c \<and> c \<le> CHR ''z''))"
| "in_item (CRange lo hi) c = (lo \<le> c \<and> c \<le> hi)"

definition in_class :: "class_item list \<Rightarrow> char \<Rightarrow> bool" where
  "in_class items c = list_ex (\<lambda>i. in_item i c) items"

definition idRegex :: "class_item list" where
  "idRegex = [Perl_w, CRange (CHR ''+'') (CHR ''.'')]"

text \<open>\<^verbatim>\<open>MatchString\<close> for a pattern of the shape \<^verbatim>\<open>^[class]+$\<close>.\<close>

definition MatchString :: "class_item list \<Rightarrow> string \<Rightarrow> bool" where
  "MatchString items s = (s \<noteq> [] \<and> list_all (in_class items) s)"

definition validateID :: "string \<Rightarrow> error option" where
  "validateID ident =
     (if \<not> MatchString idRegex ident then Some (InvalidID ident) else None)"

text \<open>
  The identifier syntax as the specification words it: \<^verbatim>\<open>^[\w+\-.]+$\<close>, that is word
  characters, plus, hyphen and dot. It is compared with \<open>validateID\<close> below.
\<close>

definition spec_id_char :: "char \<Rightarrow> bool" where
  "spec_id_char c =
     (in_item Perl_w c \<or> c = CHR ''+'' \<or> c = CHR ''-'' \<or> c = CHR ''.'')"

definition spec_id_match :: "string \<Rightarrow> bool" where
  "spec_id_match s = (s \<noteq> [] \<and> list_all spec_id_char s)"

subsection \<open>The host file system\<close>

text \<open>
  A path is the list of its components below the file-system root, and the file system a
  table from paths to nodes. The calls are modelled as \<^verbatim>\<open>os\<close> and \<^verbatim>\<open>io/ioutil\<close>
  document them; which of them fail is decided by the table alone.
\<close>

type_synonym path = "string list"

datatype node = File string | Dir

type_synonym filesystem = "(path \<times> node) list"

text \<open>
  \<^verbatim>\<open>filepath.Join(dir, name)\<close> for a clean \<open>dir\<close> and a \<open>name\<close> without separator: the
  result is cleaned, so an empty name or \<^verbatim>\<open>.\<close> adds nothing and \<^verbatim>\<open>..\<close> steps up.
\<close>

definition Join :: "path \<Rightarrow> string \<Rightarrow> path" where
  "Join dir name =
     (if name = [] \<or> name = ''.'' then dir
      else if name = ''..'' then butlast dir
      else dir @ [name])"

definition Stat :: "filesystem \<Rightarrow> path \<Rightarrow> node option" where
  "Stat fs p = (if p = [] then Some Dir else map_of fs p)"

text \<open>\<^verbatim>\<open>exists\<close>: true when \<^verbatim>\<open>os.Stat\<close> succeeds, false on every error.\<close>

definition exists :: "filesystem \<Rightarrow> path \<Rightarrow> bool" where
  "exists fs f = (case Stat fs f of Some _ \<Rightarrow> True | None \<Rightarrow> False)"

text \<open>
  \<^verbatim>\<open>os.MkdirAll\<close>: every missing directory on the way is created, an existing directory
  is kept, and a regular file on the way is an error. \<open>mkdirs\<close> walks the components
  \<open>rest\<close> below the directory \<open>done\<close>.
\<close>

fun mkdirs :: "filesystem \<Rightarrow> path \<Rightarrow> path \<Rightarrow> errno + filesystem" where
  "mkdirs fs done [] = Inr fs"
| "mkdirs fs done (x # rest) =
     (case Stat fs (done @ [x]) of
        Some (File _) \<Rightarrow> Inl ENOTDIR
      | Some Dir \<Rightarrow> mkdirs fs (done @ [x]) rest
      | None \<Rightarrow> mkdirs (AList.update (done @ [x]) Dir fs) (done @ [x]) rest)"

definition MkdirAll :: "filesystem \<Rightarrow> path \<Rightarrow> errno + filesystem" where
  "MkdirAll fs p = mkdirs fs [] p"

text \<open>
  \<^verbatim>\<open>ioutil.WriteFile(name, data, perm)\<close> is
  \<^verbatim>\<open>os.OpenFile(name, O_WRONLY|O_CREATE|O_TRUNC, perm)\<close>, then \<^verbatim>\<open>Write(data)\<close>, then
  \<^verbatim>\<open>Close\<close>. Opening creates the file or empties the existing one, in place; it fails
  on a directory and below a missing directory.
\<close>

definition OpenTrunc :: "filesystem \<Rightarrow> path \<Rightarrow> errno + filesystem" where
  "OpenTrunc fs p =
     (if p = [] then Inl EISDIR
      else case Stat fs (butlast p) of
        None \<Rightarrow> Inl ENOENT
      | Some (File _) \<Rightarrow> Inl ENOTDIR
      | Some Dir \<Rightarrow>
          (case Stat fs p of
             Some Dir \<Rightarrow> Inl EISDIR
           | _ \<Rightarrow> Inr (AList.update p (File []) fs)))"

text \<open>Writing \<open>data\<close> to the file just opened at \<open>p\<close>.\<close>

definition WriteOpen :: "filesystem \<Rightarrow> path \<Rightarrow> string \<Rightarrow> filesystem" where
  "WriteOpen fs p data = AList.update p (File data) fs"

definition WriteFile :: "filesystem \<Rightarrow> path \<Rightarrow> string \<Rightarrow> errno + filesystem" where
  "WriteFile fs p data =
     (case OpenTrunc fs p of
        Inl e \<Rightarrow> Inl e
      | Inr fs1 \<Rightarrow> Inr (WriteOpen fs1 p data))"

definition ReadFile :: "filesystem \<Rightarrow> path \<Rightarrow> errno + string" where
  "ReadFile fs p =
     (case Stat fs p of
        None \<Rightarrow> Inl ENOENT
      | Some Dir \<Rightarrow> Inl EISDIR
      | Some (File data) \<Rightarrow> Inr data)"

text \<open>
  \<^verbatim>\<open>ioutil.ReadDir\<close>: the entries of a directory, of whatever kind, sorted by name.
  \<open>entries\<close> are the names directly below \<open>p\<close>.
\<close>

definition entries :: "filesystem \<Rightarrow> path \<Rightarrow> string list" where
  "entries fs p = remdups (map (last \<circ> fst) (filter (\<lambda>(q, n). q \<noteq> [] \<and> butlast q = p) fs))"

definition ReadDir :: "filesystem \<Rightarrow> path \<Rightarrow> errno + string list" where
  "ReadDir fs p =
     (case Stat fs p of
        None \<Rightarrow> Inl ENOENT
      | Some (File _) \<Rightarrow> Inl ENOTDIR
      | Some Dir \<Rightarrow> Inr (sort (entries fs p)))"

text \<open>\<^verbatim>\<open>os.RemoveAll\<close>: the path and everything below it; a missing path is no error.\<close>

definition RemoveAll :: "filesystem \<Rightarrow> path \<Rightarrow> filesystem" where
  "RemoveAll fs p = filter (\<lambda>(q, n). take (length p) q \<noteq> p) fs"

subsection \<open>Data of the package\<close>

text \<open>
  Modelled from the spec: the type \<^verbatim>\<open>Status\<close>, declared in another file of the
  package. The status of a record is one of Creating, Created, Running and Stopped.
\<close>

datatype status = Creating | Created | Running | Stopped

text \<open>
  Modelled from the spec: the type \<^verbatim>\<open>sandbox.Sandbox\<close>, declared in the package
  \<^verbatim>\<open>runsc/sandbox\<close>. It is the durable descriptor of the sandbox subprocess, its ID and
  its PID; the source reads the fields \<^verbatim>\<open>ID\<close> and \<^verbatim>\<open>Pid\<close>.
\<close>

record sandbox =
  SandboxID :: string
  SandboxPid :: int

text \<open>
  Of the OCI runtime spec the package reads the hooks only: \<^verbatim>\<open>Spec.Hooks\<close> is a pointer,
  nil when the bundle declares no hooks. A hook is kept as the path of its program.
\<close>

record hooks =
  Prestart :: "string list"
  Poststart :: "string list"
  Poststop :: "string list"

record spec =
  Hooks :: "hooks option"

text \<open>
  \<^verbatim>\<open>Container\<close>. The pointers \<^verbatim>\<open>Spec\<close> and \<^verbatim>\<open>Sandbox\<close> are options, \<open>None\<close> for nil;
  \<^verbatim>\<open>CreatedAt\<close> is a time in seconds, 0 for the zero time.
\<close>

record container =
  ID :: string
  Spec :: "spec option"
  BundleDir :: path
  Root :: path
  CreatedAt :: int
  Owner :: string
  ConsoleSocket :: string
  Status :: status
  Sandbox :: "sandbox option"

text \<open>
  \<^verbatim>\<open>specs.State\<close>, the document handed to the hooks, without its constant \<^verbatim>\<open>Version\<close>;
  the status, which the source renders with \<^verbatim>\<open>Status.String\<close>, is kept as it is.
\<close>

record state =
  StateID :: string
  StateStatus :: status
  StatePid :: int
  StateBundle :: path

text \<open>\<^verbatim>\<open>boot.Config\<close>: the package reads the root directory only.\<close>

record config =
  RootDir :: path

type_synonym WaitStatus = "32 word"

text \<open>
  The host: the file system, the PIDs of the live processes, and what the collaborators
  outside the package will answer. \<open>launch\<close> is the outcome of the next sandbox launch
  (the PID of the new subprocess or an error), \<open>unreachable\<close> the PIDs of the sandboxes
  whose control channel does not answer, \<open>exits\<close> the wait status with which the init
  process of a container, named by its ID, exits (no entry: it never exits), \<open>signals\<close> the
  signals delivered to sandboxes so far, \<open>hooks_run\<close> the hook programs run so far, and
  \<open>USER\<close> the environment variable.
\<close>

record world =
  files :: filesystem
  procs :: "int list"
  launch :: "error + int"
  unreachable :: "int list"
  exits :: "(string \<times> WaitStatus) list"
  signals :: "(int \<times> string \<times> int) list"
  hooks_run :: "(string \<times> state) list"
  USER :: string

text \<open>
  What the package takes from libraries: the JSON codec of \<^verbatim>\<open>encoding/json\<close> for
  \<^verbatim>\<open>Container\<close> (\<open>None\<close> is an error) and the validator \<^verbatim>\<open>specutils.ValidateSpec\<close>.
  They are parameters of the verbs that use them.
\<close>

record externals =
  Marshal :: "container \<Rightarrow> string option"
  Unmarshal :: "string \<Rightarrow> container option"
  ValidateSpec :: "spec option \<Rightarrow> error option"

definition metadataFilename :: string where
  "metadataFilename = ''meta.json''"

subsection \<open>The sandbox handle\<close>

text \<open>
  A method with a pointer receiver can be called on nil in Go; it panics where it reads a
  field through the receiver.
\<close>

text \<open>
  Modelled from the spec: \<^verbatim>\<open>sandbox.Create\<close>, of the package \<^verbatim>\<open>runsc/sandbox\<close>.
  It launches a new sandbox subprocess and returns a handle whose ID is the container
  ID; when it fails it leaves nothing behind.
\<close>

definition sandbox_Create :: "string \<Rightarrow> world \<Rightarrow> (error + sandbox) \<times> world" where
  "sandbox_Create ident w =
     (case launch w of
        Inl e \<Rightarrow> (Inl e, w)
      | Inr pid \<Rightarrow>
          (Inr \<lparr>SandboxID = ident, SandboxPid = pid\<rparr>, w\<lparr>procs := pid # procs w\<rparr>))"

text \<open>
  Modelled from the spec: \<^verbatim>\<open>Sandbox.IsRunning\<close>, of the package \<^verbatim>\<open>runsc/sandbox\<close>.
  It probes whether the sandbox subprocess is alive by a signal 0 to its PID, so it
  reads the PID through the handle.
\<close>

definition sandbox_IsRunning :: "sandbox option \<Rightarrow> world \<Rightarrow> bool outcome" where
  "sandbox_IsRunning s w =
     (case s of
        None \<Rightarrow> Panic
      | Some sb \<Rightarrow> Ok (SandboxPid sb \<in> set (procs w)))"

text \<open>
  Modelled from the spec: \<^verbatim>\<open>Sandbox.Stop\<close>, of the package \<^verbatim>\<open>runsc/sandbox\<close>. It
  requests the stop of one container, and a stop error is fatal to the teardown. The
  teardown is specified as idempotent, its second call succeeding once the sandbox
  reference is cleared; in the source \<^verbatim>\<open>Create\<close> runs \<^verbatim>\<open>Destroy\<close> before any handle
  is attached, and \<^verbatim>\<open>Destroy\<close> tests the handle against nil after the stop. So a stop
  through a cleared handle has nothing to request: it succeeds without reading the
  handle.
\<close>

definition sandbox_Stop :: "sandbox option \<Rightarrow> string \<Rightarrow> world \<Rightarrow> unit outcome" where
  "sandbox_Stop s cid w =
     (case s of
        None \<Rightarrow> Ok ()
      | Some sb \<Rightarrow>
          if SandboxPid sb \<in> set (unreachable w) then Err SandboxFailure else Ok ())"

text \<open>
  Modelled from the spec: \<^verbatim>\<open>Sandbox.Destroy\<close>, of the package \<^verbatim>\<open>runsc/sandbox\<close>. It
  terminates the whole sandbox subprocess, found by the PID in the handle.
\<close>

definition sandbox_Destroy :: "sandbox option \<Rightarrow> world \<Rightarrow> unit outcome \<times> world" where
  "sandbox_Destroy s w =
     (case s of
        None \<Rightarrow> (Panic, w)
      | Some sb \<Rightarrow> (Ok (), w\<lparr>procs := removeAll (SandboxPid sb) (procs w)\<rparr>))"

text \<open>
  Modelled from the spec: \<^verbatim>\<open>Sandbox.Wait\<close>, of the package \<^verbatim>\<open>runsc/sandbox\<close>. It
  blocks until the primary process of the container exits and returns its wait status,
  asked for over the control channel of the handle. \<open>None\<close> is a call that never
  returns.
\<close>

definition sandbox_Wait :: "sandbox option \<Rightarrow> string \<Rightarrow> world \<Rightarrow> WaitStatus outcome option" where
  "sandbox_Wait s cid w =
     (case s of
        None \<Rightarrow> Some Panic
      | Some sb \<Rightarrow>
          if SandboxPid sb \<in> set (unreachable w) then Some (Err SandboxFailure)
          else map_option Ok (map_of (exits w) cid))"

text \<open>
  Modelled from the spec: \<^verbatim>\<open>Sandbox.Signal\<close>, of the package \<^verbatim>\<open>runsc/sandbox\<close>. It
  forwards a signal to the init process of the container over the control channel of
  the handle.
\<close>

definition sandbox_Signal :: "sandbox option \<Rightarrow> string \<Rightarrow> int \<Rightarrow> world \<Rightarrow> unit outcome \<times> world" where
  "sandbox_Signal s cid sig w =
     (case s of
        None \<Rightarrow> (Panic, w)
      | Some sb \<Rightarrow>
          if SandboxPid sb \<in> set (unreachable w) then (Err SandboxFailure, w)
          else (Ok (), w\<lparr>signals := signals w @ [(SandboxPid sb, cid, sig)]\<rparr>))"

text \<open>
  Modelled from the spec: \<^verbatim>\<open>executeHooksBestEffort\<close>, defined in another file of the
  package. It runs the hooks in their order with the state document; a failing hook is a
  warning and the rest still run.
\<close>

definition executeHooksBestEffort :: "string list \<Rightarrow> state \<Rightarrow> world \<Rightarrow> world" where
  "executeHooksBestEffort hs st w = w\<lparr>hooks_run := hooks_run w @ map (\<lambda>h. (h, st)) hs\<rparr>"

subsection \<open>Load and List\<close>

text \<open>
  \<^verbatim>\<open>Load\<close> reads the host and changes nothing in it. After decoding, a record with status
  Running or Created is probed with \<^verbatim>\<open>c.Sandbox.IsRunning()\<close>, whatever the pointer is.
\<close>

definition Load :: "externals \<Rightarrow> world \<Rightarrow> path \<Rightarrow> string \<Rightarrow> container outcome" where
  "Load lib w rootDir ident =
     (case validateID ident of
        Some e \<Rightarrow> Err e
      | None \<Rightarrow>
          let cRoot = Join rootDir ident in
          if \<not> exists (files w) cRoot then Err (NotExist ident)
          else
            let metaFile = Join cRoot metadataFilename in
            if \<not> exists (files w) metaFile then Err (NoMetadataFile ident)
            else
              case ReadFile (files w) metaFile of
                Inl e \<Rightarrow> Err (ReadFailed e)
              | Inr metaBytes \<Rightarrow>
                  (case Unmarshal lib metaBytes of
                     None \<Rightarrow> Err Corrupt
                   | Some c \<Rightarrow>
                       if Status c = Running \<or> Status c = Created then
                         (case sandbox_IsRunning (Sandbox c) w of
                            Panic \<Rightarrow> Panic
                          | Err e \<Rightarrow> Err e
                          | Ok True \<Rightarrow> Ok c
                          | Ok False \<Rightarrow> Ok (c\<lparr>Status := Stopped, Sandbox := None\<rparr>))
                       else Ok c))"

text \<open>\<^verbatim>\<open>List\<close>: the name of every entry \<^verbatim>\<open>ioutil.ReadDir\<close> returns, in its order.\<close>

definition List :: "world \<Rightarrow> path \<Rightarrow> string list outcome" where
  "List w rootDir =
     (case ReadDir (files w) rootDir of
        Inl e \<Rightarrow> Err (ReadDirFailed e)
      | Inr fs \<Rightarrow> Ok (foldl (\<lambda>out f. out @ [f]) [] fs))"

subsection \<open>Pid, State, Wait and Signal\<close>

definition Pid :: "container \<Rightarrow> int outcome" where
  "Pid c =
     (if Status c \<noteq> Running \<and> Status c \<noteq> Created then Ok (- 1)
      else case Sandbox c of
        None \<Rightarrow> Panic
      | Some sb \<Rightarrow> Ok (SandboxPid sb))"

definition State :: "container \<Rightarrow> state outcome" where
  "State c =
     (case Pid c of
        Ok pid \<Rightarrow>
          Ok \<lparr>StateID = ID c, StateStatus = Status c, StatePid = pid, StateBundle = BundleDir c\<rparr>
      | Err e \<Rightarrow> Err e
      | Panic \<Rightarrow> Panic)"

text \<open>\<^verbatim>\<open>Wait\<close> hands the call to the sandbox handle, with no test of the status.\<close>

definition Wait :: "container \<Rightarrow> world \<Rightarrow> WaitStatus outcome option" where
  "Wait c w = sandbox_Wait (Sandbox c) (ID c) w"

definition Signal :: "container \<Rightarrow> int \<Rightarrow> world \<Rightarrow> unit outcome \<times> world" where
  "Signal c sig w =
     (if Status c = Stopped then (Ok (), w)
      else sandbox_Signal (Sandbox c) (ID c) sig w)"

subsection \<open>save and Destroy\<close>

text \<open>
  \<^verbatim>\<open>save\<close> returns the error, \<open>None\<close> for nil, and the host it leaves: the directory made
  by \<^verbatim>\<open>MkdirAll\<close> stays when a later step fails.
\<close>

definition save :: "externals \<Rightarrow> container \<Rightarrow> world \<Rightarrow> error option \<times> world" where
  "save lib c w =
     (case MkdirAll (files w) (Root c) of
        Inl e \<Rightarrow> (Some (MkdirFailed e), w)
      | Inr fs1 \<Rightarrow>
          (case Marshal lib c of
             None \<Rightarrow> (Some MarshalFailed, w\<lparr>files := fs1\<rparr>)
           | Some meta \<Rightarrow>
               let metaFile = Join (Root c) metadataFilename in
               case WriteFile fs1 metaFile meta of
                 Inl e \<Rightarrow> (Some (WriteFailed e), w\<lparr>files := fs1\<rparr>)
               | Inr fs2 \<Rightarrow> (None, w\<lparr>files := fs2\<rparr>)))"

text \<open>
  The host left by a \<^verbatim>\<open>save\<close> whose process dies inside \<^verbatim>\<open>ioutil.WriteFile\<close>, after
  the metadata file has been opened and the first \<open>n\<close> bytes have been written; \<open>None\<close>
  when \<^verbatim>\<open>save\<close> does not get that far.
\<close>

definition save_interrupted :: "externals \<Rightarrow> container \<Rightarrow> world \<Rightarrow> nat \<Rightarrow> world option" where
  "save_interrupted lib c w n =
     (case MkdirAll (files w) (Root c) of
        Inl e \<Rightarrow> None
      | Inr fs1 \<Rightarrow>
          (case Marshal lib c of
             None \<Rightarrow> None
           | Some meta \<Rightarrow>
               let metaFile = Join (Root c) metadataFilename in
               case OpenTrunc fs1 metaFile of
                 Inl e \<Rightarrow> None
               | Inr fs2 \<Rightarrow> Some (w\<lparr>files := WriteOpen fs2 metaFile (take n meta)\<rparr>)))"

text \<open>
  \<^verbatim>\<open>Destroy\<close> returns the container as it leaves it: unchanged with the stop error,
  stopped and without sandbox on success. The errors of \<^verbatim>\<open>os.RemoveAll\<close> and of
  \<^verbatim>\<open>Sandbox.Destroy\<close> are only logged. \<^verbatim>\<open>c.Spec.Hooks\<close> reads through the pointer
  \<^verbatim>\<open>c.Spec\<close> before the status is looked at.
\<close>

definition Destroy :: "container \<Rightarrow> world \<Rightarrow> container outcome \<times> world" where
  "Destroy c w =
     (case sandbox_Stop (Sandbox c) (ID c) w of
        Err e \<Rightarrow> (Err e, w)
      | Panic \<Rightarrow> (Panic, w)
      | Ok _ \<Rightarrow>
          let w1 = w\<lparr>files := RemoveAll (files w) (Root c)\<rparr> in
          case Spec c of
            None \<Rightarrow> (Panic, w1)
          | Some sp \<Rightarrow>
              let hooked =
                (case Hooks sp of
                   Some h \<Rightarrow>
                     if Status c = Created \<or> Status c = Running then
                       (case State c of
                          Ok st \<Rightarrow> Ok (executeHooksBestEffort (Poststop h) st w1)
                        | Err e \<Rightarrow> Err e
                        | Panic \<Rightarrow> Panic)
                     else Ok w1
                 | None \<Rightarrow> Ok w1)
              in
              case hooked of
                Panic \<Rightarrow> (Panic, w1)
              | Err e \<Rightarrow> (Err e, w1)
              | Ok w2 \<Rightarrow>
                  let w3 = w2\<lparr>files := RemoveAll (files w2) (Root c)\<rparr>;
                      w4 = (case Sandbox c of
                              Some sb \<Rightarrow>
                                if SandboxID sb = ID c then snd (sandbox_Destroy (Some sb) w3)
                                else w3
                            | None \<Rightarrow> w3)
                  in (Ok (c\<lparr>Sandbox := None, Status := Stopped\<rparr>), w4))"

subsection \<open>Create\<close>

text \<open>\<^verbatim>\<open>strconv.Itoa\<close>: the decimal digits, with a minus sign below zero.\<close>

fun Itoa_nat :: "nat \<Rightarrow> string" where
  "Itoa_nat n =
     (if n < 10 then [''0123456789'' ! n]
      else Itoa_nat (n div 10) @ [''0123456789'' ! (n mod 10)])"

declare Itoa_nat.simps [simp del]

definition Itoa :: "int \<Rightarrow> string" where
  "Itoa i = (if i < 0 then CHR ''-'' # Itoa_nat (nat (- i)) else Itoa_nat (nat i))"

text \<open>
  \<^verbatim>\<open>Create\<close>. The pid file is \<open>None\<close> for the empty string. The calls of \<^verbatim>\<open>c.Destroy()\<close>
  drop its result; a panic inside it ends \<^verbatim>\<open>Create\<close> as well. When the pid file cannot
  be written the source calls \<^verbatim>\<open>s.Destroy()\<close>, the teardown of the sandbox handle.
\<close>

definition Create ::
  "externals \<Rightarrow> string \<Rightarrow> spec option \<Rightarrow> config \<Rightarrow> path \<Rightarrow> string \<Rightarrow> path option \<Rightarrow> world
     \<Rightarrow> container outcome \<times> world" where
  "Create lib ident sp conf bundleDir consoleSocket pidFile w =
     (case validateID ident of
        Some e \<Rightarrow> (Err e, w)
      | None \<Rightarrow>
          (case ValidateSpec lib sp of
             Some e \<Rightarrow> (Err e, w)
           | None \<Rightarrow>
               let containerRoot = Join (RootDir conf) ident in
               if exists (files w) containerRoot then (Err (AlreadyExists ident), w)
               else
                 let c = \<lparr>ID = ident, Spec = sp, BundleDir = bundleDir, Root = containerRoot,
                          CreatedAt = 0, Owner = USER w, ConsoleSocket = consoleSocket,
                          Status = Creating, Sandbox = None\<rparr>
                 in
                 case sandbox_Create ident w of
                   (Inl e, w1) \<Rightarrow>
                     (case Destroy c w1 of
                        (Panic, w2) \<Rightarrow> (Panic, w2)
                      | (_, w2) \<Rightarrow> (Err e, w2))
                 | (Inr s, w1) \<Rightarrow>
                     let c1 = c\<lparr>Sandbox := Some s, Status := Created\<rparr> in
                     case save lib c1 w1 of
                       (Some e, w2) \<Rightarrow>
                         (case Destroy c1 w2 of
                            (Panic, w3) \<Rightarrow> (Panic, w3)
                          | (_, w3) \<Rightarrow> (Err e, w3))
                     | (None, w2) \<Rightarrow>
                         (case pidFile of
                            None \<Rightarrow> (Ok c1, w2)
                          | Some pf \<Rightarrow>
                              (case Pid c1 of
                                 Panic \<Rightarrow> (Panic, w2)
                               | Err e \<Rightarrow> (Err e, w2)
                               | Ok pid \<Rightarrow>
                                   (case WriteFile (files w2) pf (Itoa pid) of
                                      Inl e \<Rightarrow>
                                        (case sandbox_Destroy (Some s) w2 of
                                           (Panic, w3) \<Rightarrow> (Panic, w3)
                                         | (_, w3) \<Rightarrow> (Err (PidFileFailed e), w3))
                                    | Inr fs \<Rightarrow> (Ok c1, w2\<lparr>files := fs\<rparr>))))))"

subsection \<open>The exit code of main\<close>

text \<open>
  \<^verbatim>\<open>syscall.WaitStatus\<close> on Linux: the low seven bits hold the terminating signal, 0
  for a process that exited and 0x7F for a stopped one; the exit status is in the second
  byte.
\<close>

definition WaitStatus_Exited :: "WaitStatus \<Rightarrow> bool" where
  "WaitStatus_Exited ws = (ws AND 0x7F = 0x00)"

definition WaitStatus_Signaled :: "WaitStatus \<Rightarrow> bool" where
  "WaitStatus_Signaled ws = (ws AND 0x7F \<noteq> 0x7F \<and> ws AND 0x7F \<noteq> 0x00)"

definition WaitStatus_ExitStatus :: "WaitStatus \<Rightarrow> int" where
  "WaitStatus_ExitStatus ws =
     (if \<not> WaitStatus_Exited ws then - 1 else uint (drop_bit 8 ws) AND 0xFF)"

definition WaitStatus_Signal :: "WaitStatus \<Rightarrow> int" where
  "WaitStatus_Signal ws = (if \<not> WaitStatus_Signaled ws then - 1 else uint (ws AND 0x7F))"

text \<open>\<^verbatim>\<open>subcommands.ExitStatus\<close>, the result of \<^verbatim>\<open>subcommands.Execute\<close>.\<close>

datatype ExitStatus = ExitSuccess | ExitFailure | ExitUsageError

text \<open>
  The end of \<^verbatim>\<open>main\<close>: the argument of \<^verbatim>\<open>os.Exit\<close>, from the code of the subcommand
  and the wait status the subcommand stored.
\<close>

definition main_exit :: "ExitStatus \<Rightarrow> WaitStatus \<Rightarrow> int" where
  "main_exit subcmdCode ws =
     (if subcmdCode = ExitSuccess then
        (if WaitStatus_Signaled ws then 128 + WaitStatus_Signal ws
         else WaitStatus_ExitStatus ws)
      else 128)"

text \<open>
  \<^verbatim>\<open>os.Exit(code)\<close> ends the process; the exit code its parent observes is the low
  eight bits of the argument, so an argument of -1 is seen as 255.
\<close>

definition os_Exit :: "int \<Rightarrow> int" where
  "os_Exit code = code AND 0xFF"

text \<open>The exit code of the process, as the host orchestrator observes it.\<close>

definition exit_code :: "ExitStatus \<Rightarrow> WaitStatus \<Rightarrow> int" where
  "exit_code subcmdCode ws = os_Exit (main_exit subcmdCode ws)"

subsection \<open>A host with two records\<close>

text \<open>
  The concrete inputs of the examples below: a root directory \<^verbatim>\<open>/run\<close> with a regular
  file and the records of two containers, both stored as running; the record of \<^verbatim>\<open>c2\<close>
  has no sandbox. No process is alive. The example codec renders the ID, the status and
  the sandbox of a record and reads back the two documents of this host.
\<close>

definition example_spec :: spec where
  "example_spec = \<lparr>Hooks = None\<rparr>"

definition example_container :: container where
  "example_container =
     \<lparr>ID = ''c1'', Spec = Some example_spec, BundleDir = [''bundle''], Root = [''run'', ''c1''],
      CreatedAt = 0, Owner = ''root'', ConsoleSocket = [], Status = Running,
      Sandbox = Some \<lparr>SandboxID = ''c1'', SandboxPid = 42\<rparr>\<rparr>"

definition example_orphan :: container where
  "example_orphan = example_container\<lparr>ID := ''c2'', Root := [''run'', ''c2''], Sandbox := None\<rparr>"

fun status_name :: "status \<Rightarrow> string" where
  "status_name Creating = ''creating''"
| "status_name Created = ''created''"
| "status_name Running = ''running''"
| "status_name Stopped = ''stopped''"

definition example_Marshal :: "container \<Rightarrow> string option" where
  "example_Marshal c =
     Some (''{id:'' @ ID c @ '',status:'' @ status_name (Status c) @ '',sandbox:'' @
           (case Sandbox c of
              None \<Rightarrow> ''null''
            | Some sb \<Rightarrow> ''{id:'' @ SandboxID sb @ '',pid:'' @ Itoa (SandboxPid sb) @ ''}'') @ ''}'')"

definition example_Unmarshal :: "string \<Rightarrow> container option" where
  "example_Unmarshal b =
     (if b = ''{id:c1,status:running,sandbox:{id:c1,pid:42}}'' then Some example_container
      else if b = ''{id:c2,status:running,sandbox:null}'' then Some example_orphan
      else None)"

definition example_lib :: externals where
  "example_lib =
     \<lparr>Marshal = example_Marshal, Unmarshal = example_Unmarshal, ValidateSpec = (\<lambda>sp. None)\<rparr>"

definition example_world :: world where
  "example_world =
     \<lparr>files = [([''run''], Dir),
               ([''run'', ''README''], File ''state of the runtime''),
               ([''run'', ''c1''], Dir),
               ([''run'', ''c1'', ''meta.json''],
                  File ''{id:c1,status:running,sandbox:{id:c1,pid:42}}''),
               ([''run'', ''c2''], Dir),
               ([''run'', ''c2'', ''meta.json''], File ''{id:c2,status:running,sandbox:null}'')],
      procs = [], launch = Inr 43, unreachable = [], exits = [], signals = [],
      hooks_run = [], USER = ''root''\<rparr>"

text \<open>The record of \<^verbatim>\<open>c1\<close> after its teardown.\<close>

definition example_stopped :: container where
  "example_stopped = example_container\<lparr>Status := Stopped, Sandbox := None\<rparr>"

section \<open>Properties\<close>

subsection \<open>Load\<close>

lemmas id_defs = validateID_def MatchString_def idRegex_def in_class_def

lemma ReadFile_exists: "ReadFile fs p = Inr data \<Longrightarrow> exists fs p"
  by (auto simp: exists_def ReadFile_def split: option.splits node.splits)

text \<open>
  C1. A stored record with status Created or Running names its sandbox process by the
  PID in its sandbox descriptor. When that process is not among the live ones, \<open>Load\<close>
  returns the record with status Stopped and no sandbox; when it is alive, \<open>Load\<close> returns
  the record as it is stored.
\<close>

theorem Load_reconciles:
  assumes "validateID ident = None"
    and "exists (files w) (Join rootDir ident)"
    and "ReadFile (files w) (Join (Join rootDir ident) metadataFilename) = Inr metaBytes"
    and "Unmarshal lib metaBytes = Some c"
    and "Status c = Created \<or> Status c = Running"
    and "Sandbox c = Some sb"
  shows "Load lib w rootDir ident =
           Ok (if SandboxPid sb \<in> set (procs w) then c
               else c\<lparr>Status := Stopped, Sandbox := None\<rparr>)"
proof -
  have "exists (files w) (Join (Join rootDir ident) metadataFilename)"
    using assms(3) by (rule ReadFile_exists)
  with assms show ?thesis
    by (auto simp: Load_def Let_def sandbox_IsRunning_def)
qed

theorem Load_reconciles_witness:
  "Load example_lib example_world [''run''] ''c1'' =
     Ok (example_container\<lparr>Status := Stopped, Sandbox := None\<rparr>) \<and>
   Load example_lib (example_world\<lparr>procs := [42]\<rparr>) [''run''] ''c1'' = Ok example_container"
proof -
  let ?b = "''{id:c1,status:running,sandbox:{id:c1,pid:42}}''"
  let ?sb = "\<lparr>SandboxID = ''c1'', SandboxPid = 42\<rparr>"
  have v: "validateID ''c1'' = None" by (simp add: id_defs)
  have u: "Unmarshal example_lib ?b = Some example_container"
    by (simp add: example_lib_def example_Unmarshal_def)
  have s: "Status example_container = Created \<or> Status example_container = Running"
    by (simp add: example_container_def)
  have b: "Sandbox example_container = Some ?sb" by (simp add: example_container_def)
  have e1: "exists (files example_world) (Join [''run''] ''c1'')"
    by (simp add: exists_def Stat_def Join_def example_world_def)
  have r1: "ReadFile (files example_world) (Join (Join [''run''] ''c1'') metadataFilename) = Inr ?b"
    by (simp add: ReadFile_def Stat_def Join_def example_world_def metadataFilename_def)
  have e2: "exists (files (example_world\<lparr>procs := [42]\<rparr>)) (Join [''run''] ''c1'')"
    using e1 by simp
  have r2: "ReadFile (files (example_world\<lparr>procs := [42]\<rparr>))
              (Join (Join [''run''] ''c1'') metadataFilename) = Inr ?b"
    using r1 by simp
  show ?thesis
    using Load_reconciles [OF v e1 r1 u s b] Load_reconciles [OF v e2 r2 u s b]
    by (simp add: example_world_def)
qed

text \<open>
  C10. When the stored document decodes to a record with status Created or Running and
  no sandbox, \<open>Load\<close> reaches the liveness probe with the nil handle and ends in a panic;
  it returns neither a record nor an error.
\<close>

theorem Load_nil_sandbox_panics:
  assumes "validateID ident = None"
    and "exists (files w) (Join rootDir ident)"
    and "ReadFile (files w) (Join (Join rootDir ident) metadataFilename) = Inr metaBytes"
    and "Unmarshal lib metaBytes = Some c"
    and "Status c = Created \<or> Status c = Running"
    and "Sandbox c = None"
  shows "Load lib w rootDir ident = Panic"
proof -
  have "exists (files w) (Join (Join rootDir ident) metadataFilename)"
    using assms(3) by (rule ReadFile_exists)
  with assms show ?thesis
    by (auto simp: Load_def Let_def sandbox_IsRunning_def)
qed

theorem Load_nil_sandbox_panics_witness:
  "Load example_lib example_world [''run''] ''c2'' = Panic"
proof -
  let ?b = "''{id:c2,status:running,sandbox:null}''"
  have v: "validateID ''c2'' = None" by (simp add: id_defs)
  have u: "Unmarshal example_lib ?b = Some example_orphan"
    by (simp add: example_lib_def example_Unmarshal_def)
  have s: "Status example_orphan = Created \<or> Status example_orphan = Running"
    by (simp add: example_orphan_def example_container_def)
  have b: "Sandbox example_orphan = None" by (simp add: example_orphan_def)
  have e1: "exists (files example_world) (Join [''run''] ''c2'')"
    by (simp add: exists_def Stat_def Join_def example_world_def)
  have r1: "ReadFile (files example_world) (Join (Join [''run''] ''c2'') metadataFilename) = Inr ?b"
    by (simp add: ReadFile_def Stat_def Join_def example_world_def metadataFilename_def)
  show ?thesis
    using Load_nil_sandbox_panics [OF v e1 r1 u s b] .
qed

subsection \<open>Destroy, Wait and Signal\<close>

text \<open>
  \<open>Destroy\<close> of a stopped container without sandbox: its outcome is the outcome of the
  stop through the cleared handle, and nothing but the directory is touched.
\<close>

lemma Destroy_stopped:
  assumes "Status c = Stopped" and "Sandbox c = None" and "Spec c = Some sp"
  shows "Destroy c w =
           (case sandbox_Stop None (ID c) w of
              Ok u \<Rightarrow> (Ok c, w\<lparr>files := RemoveAll (RemoveAll (files w) (Root c)) (Root c)\<rparr>)
            | Err e \<Rightarrow> (Err e, w)
            | Panic \<Rightarrow> (Panic, w))"
proof -
  have "c\<lparr>Sandbox := None, Status := Stopped\<rparr> = c"
    using assms by simp
  then show ?thesis
    using assms by (simp add: Destroy_def Let_def split: outcome.splits option.splits)
qed

text \<open>
  C5. When \<open>Destroy\<close> has returned success, the container is stopped and without sandbox,
  and a second \<open>Destroy\<close> of it returns success again, in whatever state the host is by
  then, and leaves the container as it is.
\<close>

theorem Destroy_idempotent:
  assumes "Destroy c w = (Ok c', w')"
  shows "Status c' = Stopped \<and> Sandbox c' = None \<and> fst (Destroy c' w2) = Ok c'"
proof -
  from assms obtain sp where sp: "Spec c = Some sp"
    by (auto simp: Destroy_def Let_def split: outcome.splits option.splits)
  from assms sp have c': "c' = c\<lparr>Sandbox := None, Status := Stopped\<rparr>"
    by (auto simp: Destroy_def Let_def split: outcome.splits option.splits if_splits)
  then have st: "Status c' = Stopped" and sb: "Sandbox c' = None" and sp': "Spec c' = Some sp"
    using sp by simp_all
  have "fst (Destroy c' w2) = Ok c'"
    by (simp add: Destroy_stopped [OF st sb sp'] sandbox_Stop_def)
  with st sb show ?thesis by simp
qed

theorem Destroy_idempotent_witness:
  "Destroy example_container (example_world\<lparr>procs := [42]\<rparr>) =
     (Ok (example_container\<lparr>Sandbox := None, Status := Stopped\<rparr>),
      example_world\<lparr>files := RemoveAll (files example_world) [''run'', ''c1'']\<rparr>) \<and>
   fst (Destroy (example_container\<lparr>Sandbox := None, Status := Stopped\<rparr>)
         (example_world\<lparr>files := RemoveAll (files example_world) [''run'', ''c1'']\<rparr>)) =
     Ok (example_container\<lparr>Sandbox := None, Status := Stopped\<rparr>)"
proof -
  have d: "Destroy example_container (example_world\<lparr>procs := [42]\<rparr>) =
     (Ok (example_container\<lparr>Sandbox := None, Status := Stopped\<rparr>),
      example_world\<lparr>files := RemoveAll (files example_world) [''run'', ''c1'']\<rparr>)"
    by (simp add: Destroy_def Let_def sandbox_Stop_def sandbox_Destroy_def example_container_def
        example_world_def example_spec_def RemoveAll_def)
  show ?thesis
    using d Destroy_idempotent [OF d] by simp
qed

text \<open>
  C7. \<open>Wait\<close> on a stopped container does not complete: after the successful teardown of
  the container \<^verbatim>\<open>c1\<close> its sandbox reference is nil, and \<open>Wait\<close> ends in a panic.
\<close>

theorem Wait_after_Destroy_panics:
  "fst (Destroy example_container example_world) = Ok example_stopped \<and>
   Status example_stopped = Stopped \<and>
   Wait example_stopped (snd (Destroy example_container example_world)) = Some Panic"
  by (simp add: Destroy_def Let_def sandbox_Stop_def sandbox_Destroy_def example_container_def
      example_stopped_def example_world_def example_spec_def Wait_def sandbox_Wait_def)

text \<open>
  C6. \<open>Signal\<close> on a stopped container returns success and leaves the host as it is, so
  nothing reaches the sandbox; in every other status it is the call of the sandbox
  handle with the ID of the container and the given signal, result and effect alike.
  Through a handle whose sandbox answers, that call succeeds and delivers this one signal
  to the container.
\<close>

theorem Signal_stopped_or_forwards:
  "(Status c = Stopped \<longrightarrow> Signal c sig w = (Ok (), w)) \<and>
   (Status c \<noteq> Stopped \<longrightarrow> Signal c sig w = sandbox_Signal (Sandbox c) (ID c) sig w) \<and>
   (Status c \<noteq> Stopped \<and> Sandbox c = Some sb \<and> SandboxPid sb \<notin> set (unreachable w) \<longrightarrow>
      Signal c sig w = (Ok (), w\<lparr>signals := signals w @ [(SandboxPid sb, ID c, sig)]\<rparr>))"
proof (intro conjI impI)
  assume "Status c = Stopped"
  then show "Signal c sig w = (Ok (), w)" by (simp add: Signal_def)
next
  assume "Status c \<noteq> Stopped"
  then show "Signal c sig w = sandbox_Signal (Sandbox c) (ID c) sig w" by (simp add: Signal_def)
next
  assume a: "Status c \<noteq> Stopped \<and> Sandbox c = Some sb \<and> SandboxPid sb \<notin> set (unreachable w)"
  then have "Signal c sig w = sandbox_Signal (Some sb) (ID c) sig w" by (simp add: Signal_def)
  also from a have "\<dots> = (Ok (), w\<lparr>signals := signals w @ [(SandboxPid sb, ID c, sig)]\<rparr>)"
    by (simp add: sandbox_Signal_def)
  finally show "Signal c sig w = (Ok (), w\<lparr>signals := signals w @ [(SandboxPid sb, ID c, sig)]\<rparr>)" .
qed

theorem Signal_stopped_or_forwards_witness:
  "Signal example_stopped 15 example_world = (Ok (), example_world) \<and>
   Signal example_container 15 (example_world\<lparr>procs := [42]\<rparr>) =
     (Ok (), example_world\<lparr>procs := [42], signals := [(42, ''c1'', 15)]\<rparr>)"
proof -
  have 1: "Status example_stopped = Stopped" by (simp add: example_stopped_def)
  have 2: "Status example_container \<noteq> Stopped \<and>
           Sandbox example_container = Some \<lparr>SandboxID = ''c1'', SandboxPid = 42\<rparr> \<and>
           SandboxPid \<lparr>SandboxID = ''c1'', SandboxPid = 42\<rparr> \<notin>
             set (unreachable (example_world\<lparr>procs := [42]\<rparr>))"
    by (simp add: example_container_def example_world_def)
  have 3: "ID example_container = ''c1''" by (simp add: example_container_def)
  have 4: "signals example_world = []" by (simp add: example_world_def)
  from Signal_stopped_or_forwards [of example_stopped 15 example_world] 1
  have s: "Signal example_stopped 15 example_world = (Ok (), example_world)" by blast
  from Signal_stopped_or_forwards [of example_container 15 "example_world\<lparr>procs := [42]\<rparr>"
      "\<lparr>SandboxID = ''c1'', SandboxPid = 42\<rparr>"] 2
  have "Signal example_container 15 (example_world\<lparr>procs := [42]\<rparr>) =
          (Ok (), example_world\<lparr>procs := [42],
             signals := signals (example_world\<lparr>procs := [42]\<rparr>) @
               [(SandboxPid \<lparr>SandboxID = ''c1'', SandboxPid = 42\<rparr>, ID example_container, 15)]\<rparr>)"
    by blast
  with s 3 4 show ?thesis by simp
qed

subsection \<open>List\<close>

lemma foldl_snoc: "foldl (\<lambda>out f. out @ [f]) acc fs = acc @ fs"
  by (induction fs arbitrary: acc) simp_all

lemma set_entries: "set (entries fs p) = {n. map_of fs (p @ [n]) \<noteq> None}"
proof (rule set_eqI)
  fix n
  have "n \<in> set (entries fs p) \<longleftrightarrow>
          (\<exists>q nd. (q, nd) \<in> set fs \<and> q \<noteq> [] \<and> butlast q = p \<and> last q = n)"
    by (auto simp: entries_def image_iff)
  also have "\<dots> \<longleftrightarrow> (\<exists>nd. (p @ [n], nd) \<in> set fs)"
    by (metis append_butlast_last_id butlast_snoc last_snoc snoc_eq_iff_butlast)
  also have "\<dots> \<longleftrightarrow> map_of fs (p @ [n]) \<noteq> None"
    by (metis map_of_eq_None_iff image_iff fst_conv prod.collapse not_None_eq weak_map_of_SomeI
        map_of_SomeD)
  finally show "n \<in> set (entries fs p) \<longleftrightarrow> n \<in> {n. map_of fs (p @ [n]) \<noteq> None}" by simp
qed

lemma exists_snoc: "exists fs (p @ [n]) \<longleftrightarrow> map_of fs (p @ [n]) \<noteq> None"
  by (simp add: exists_def Stat_def split: option.splits)

text \<open>
  C8, as the claim states it, fails: the root directory \<^verbatim>\<open>/run\<close> of the example host
  holds the regular file \<^verbatim>\<open>README\<close> beside the directories of two containers, and
  \<open>List\<close> returns its name with theirs.
\<close>

theorem List_regular_file_counterexample:
  "List example_world [''run''] = Ok [''README'', ''c1'', ''c2''] \<and>
   Stat (files example_world) [''run'', ''README''] = Some (File ''state of the runtime'')"
  by (simp add: List_def ReadDir_def Stat_def entries_def example_world_def)

text \<open>
  C8, amended. For a root directory that is a directory, \<open>List\<close> returns the names of all
  its immediate entries, directories and regular files alike, each once and in the order
  of the names; it looks into none of them.
\<close>

theorem List_all_entries:
  assumes "Stat (files w) rootDir = Some Dir"
  shows "\<exists>names. List w rootDir = Ok names \<and>
           set names = {n. exists (files w) (rootDir @ [n])} \<and> sorted names \<and> distinct names"
proof -
  have "List w rootDir = Ok (sort (entries (files w) rootDir))"
    using assms by (simp add: List_def ReadDir_def foldl_snoc)
  moreover have "set (sort (entries (files w) rootDir)) = {n. exists (files w) (rootDir @ [n])}"
    by (simp add: set_entries exists_snoc)
  moreover have "distinct (sort (entries (files w) rootDir))"
    by (simp add: entries_def)
  ultimately show ?thesis by simp
qed

theorem List_all_entries_witness:
  "Stat (files example_world) [''run''] = Some Dir \<and>
   (\<exists>names. List example_world [''run''] = Ok names \<and>
      set names = {n. exists (files example_world) ([''run''] @ [n])} \<and>
      sorted names \<and> distinct names)"
proof -
  have d: "Stat (files example_world) [''run''] = Some Dir"
    by (simp add: Stat_def example_world_def)
  show ?thesis using d List_all_entries [OF d] by simp
qed

subsection \<open>save\<close>

lemma Stat_update:
  "Stat (AList.update p v fs) q = (if q = p \<and> p \<noteq> [] then Some v else Stat fs q)"
  by (simp add: Stat_def update_conv')

lemma OpenTrunc_nonempty: "OpenTrunc fs p = Inr fs' \<Longrightarrow> p \<noteq> []"
  by (auto simp: OpenTrunc_def split: if_splits)

lemma ReadFile_WriteOpen: "p \<noteq> [] \<Longrightarrow> ReadFile (WriteOpen fs p data) p = Inr data"
  by (simp add: ReadFile_def WriteOpen_def Stat_update)

text \<open>\<^verbatim>\<open>MkdirAll\<close> adds directories and changes nothing that exists.\<close>

lemma mkdirs_Stat:
  "mkdirs fs done rest = Inr fs' \<Longrightarrow>
     Stat fs' q = Stat fs q \<or> (Stat fs q = None \<and> Stat fs' q = Some Dir)"
proof (induction rest arbitrary: fs "done")
  case Nil
  then show ?case by simp
next
  case (Cons x rest)
  show ?case
  proof (cases "Stat fs (done @ [x])")
    case None
    with Cons.prems have "mkdirs (AList.update (done @ [x]) Dir fs) (done @ [x]) rest = Inr fs'"
      by simp
    from Cons.IH [OF this] None show ?thesis
      by (auto simp: Stat_update split: if_splits)
  next
    case (Some nd)
    with Cons.prems have "mkdirs fs (done @ [x]) rest = Inr fs'"
      by (cases nd) simp_all
    from Cons.IH [OF this] show ?thesis .
  qed
qed

text \<open>Whatever its result, \<open>save\<close> writes no file but the metadata file.\<close>

lemma save_other_paths:
  assumes "save lib c w = (r, w')" and "q \<noteq> Join (Root c) metadataFilename"
  shows "Stat (files w') q = Stat (files w) q \<or>
         (Stat (files w) q = None \<and> Stat (files w') q = Some Dir)"
proof (cases "MkdirAll (files w) (Root c)")
  case (Inl e)
  with assms show ?thesis by (auto simp: save_def)
next
  case (Inr fs1)
  then have m: "Stat fs1 q = Stat (files w) q \<or> (Stat (files w) q = None \<and> Stat fs1 q = Some Dir)"
    unfolding MkdirAll_def by (rule mkdirs_Stat)
  have "Stat (files w') q = Stat fs1 q"
    using assms Inr
    by (auto simp: save_def Let_def WriteFile_def OpenTrunc_def WriteOpen_def Stat_update
        split: option.splits sum.splits if_splits node.splits)
  with m show ?thesis by simp
qed

text \<open>An interruption after the last byte leaves what the completed \<open>save\<close> leaves.\<close>

lemma save_interrupted_full:
  assumes "save lib c w = (None, w')" and "Marshal lib c = Some meta"
  shows "save_interrupted lib c w (length meta) = Some w'"
  using assms
  by (auto simp: save_def save_interrupted_def Let_def WriteFile_def split: sum.splits)

text \<open>
  C3, as the claim states it, fails: on the example host the metadata file of \<^verbatim>\<open>c1\<close>
  holds the running record; a \<open>save\<close> of the stopped record that is interrupted after ten
  bytes leaves a file that holds neither the prior record nor the new one.
\<close>

theorem save_interrupted_counterexample:
  "ReadFile (files example_world) [''run'', ''c1'', ''meta.json''] =
     Inr ''{id:c1,status:running,sandbox:{id:c1,pid:42}}'' \<and>
   Marshal example_lib example_stopped = Some ''{id:c1,status:stopped,sandbox:null}'' \<and>
   save_interrupted example_lib example_stopped example_world 10 =
     Some (example_world\<lparr>files :=
       AList.update [''run'', ''c1'', ''meta.json''] (File ''{id:c1,sta'') (files example_world)\<rparr>) \<and>
   ReadFile (AList.update [''run'', ''c1'', ''meta.json''] (File ''{id:c1,sta'') (files example_world))
     [''run'', ''c1'', ''meta.json''] = Inr ''{id:c1,sta'' \<and>
   ''{id:c1,sta'' \<noteq> ''{id:c1,status:running,sandbox:{id:c1,pid:42}}'' \<and>
   ''{id:c1,sta'' \<noteq> ''{id:c1,status:stopped,sandbox:null}''"
  by (simp add: ReadFile_def Stat_def example_world_def example_lib_def example_Marshal_def
      example_stopped_def example_container_def save_interrupted_def MkdirAll_def Join_def
      metadataFilename_def OpenTrunc_def WriteOpen_def)

text \<open>
  C3, amended. \<open>save\<close> rewrites the metadata file in place. A \<open>save\<close> that returns success
  leaves the file holding the new record; a \<open>save\<close> interrupted after \<open>n\<close> bytes leaves
  the first \<open>n\<close> bytes of the new record in it; and no other file is written, so there is
  no temporary file to rename.
\<close>

theorem save_in_place:
  assumes "Marshal lib c = Some meta"
  shows "(save lib c w = (None, w') \<longrightarrow>
            ReadFile (files w') (Join (Root c) metadataFilename) = Inr meta) \<and>
         (save_interrupted lib c w n = Some w'' \<longrightarrow>
            ReadFile (files w'') (Join (Root c) metadataFilename) = Inr (take n meta)) \<and>
         (save lib c w = (r, w3) \<and> q \<noteq> Join (Root c) metadataFilename \<longrightarrow>
            Stat (files w3) q = Stat (files w) q \<or>
            (Stat (files w) q = None \<and> Stat (files w3) q = Some Dir))"
proof (intro conjI impI)
  assume "save lib c w = (None, w')"
  with assms obtain fs1 fs2 where
    o: "OpenTrunc fs1 (Join (Root c) metadataFilename) = Inr fs2" and
    w': "w' = w\<lparr>files := WriteOpen fs2 (Join (Root c) metadataFilename) meta\<rparr>"
    by (auto simp: save_def Let_def WriteFile_def split: sum.splits)
  from OpenTrunc_nonempty [OF o]
  show "ReadFile (files w') (Join (Root c) metadataFilename) = Inr meta"
    unfolding w' by (simp add: ReadFile_WriteOpen)
next
  assume "save_interrupted lib c w n = Some w''"
  with assms obtain fs1 fs2 where
    o: "OpenTrunc fs1 (Join (Root c) metadataFilename) = Inr fs2" and
    w'': "w'' = w\<lparr>files := WriteOpen fs2 (Join (Root c) metadataFilename) (take n meta)\<rparr>"
    by (auto simp: save_interrupted_def Let_def split: sum.splits)
  from OpenTrunc_nonempty [OF o]
  show "ReadFile (files w'') (Join (Root c) metadataFilename) = Inr (take n meta)"
    unfolding w'' by (simp add: ReadFile_WriteOpen)
next
  assume "save lib c w = (r, w3) \<and> q \<noteq> Join (Root c) metadataFilename"
  then show "Stat (files w3) q = Stat (files w) q \<or>
             (Stat (files w) q = None \<and> Stat (files w3) q = Some Dir)"
    using save_other_paths by blast
qed

theorem save_in_place_witness:
  "Marshal example_lib example_stopped = Some ''{id:c1,status:stopped,sandbox:null}'' \<and>
   fst (save example_lib example_stopped example_world) = None \<and>
   ReadFile (files (snd (save example_lib example_stopped example_world)))
     [''run'', ''c1'', ''meta.json''] = Inr ''{id:c1,status:stopped,sandbox:null}'' \<and>
   Stat (files (snd (save example_lib example_stopped example_world))) [''run'', ''README''] =
     Some (File ''state of the runtime'')"
proof -
  let ?w' = "snd (save example_lib example_stopped example_world)"
  have m: "Marshal example_lib example_stopped = Some ''{id:c1,status:stopped,sandbox:null}''"
    by (simp add: example_lib_def example_Marshal_def example_stopped_def example_container_def)
  have f: "fst (save example_lib example_stopped example_world) = None"
    by (simp add: save_def Let_def MkdirAll_def Stat_def example_world_def example_lib_def
        example_Marshal_def example_stopped_def example_container_def Join_def
        metadataFilename_def WriteFile_def OpenTrunc_def)
  then have s: "save example_lib example_stopped example_world = (None, ?w')"
    by (simp add: prod_eq_iff)
  have p: "Join (Root example_stopped) metadataFilename = [''run'', ''c1'', ''meta.json'']"
    by (simp add: Join_def metadataFilename_def example_stopped_def example_container_def)
  have r: "Stat (files example_world) [''run'', ''README''] = Some (File ''state of the runtime'')"
    by (simp add: Stat_def example_world_def)
  show ?thesis
    using save_in_place [OF m, of example_world ?w' 0 example_world None ?w' "[''run'', ''README'']"]
      m f s p r
    by simp
qed

subsection \<open>validateID\<close>

text \<open>The range of the bracket expression holds four characters, the comma among them.\<close>

lemma range_plus_dot:
  "(CHR ''+'' \<le> c \<and> c \<le> CHR ''.'') \<longleftrightarrow>
     (c = CHR ''+'' \<or> c = CHR '','' \<or> c = CHR ''-'' \<or> c = CHR ''.'')"
proof -
  have eq: "\<And>k d. of_char c = (k::nat) \<Longrightarrow> of_char d = k \<Longrightarrow> c = d"
    by (rule of_char_eqI [where 'a = nat]) simp
  have "(CHR ''+'' \<le> c \<and> c \<le> CHR ''.'') \<longleftrightarrow>
          (43 \<le> (of_char c :: nat) \<and> (of_char c :: nat) \<le> 46)"
    by (simp add: less_eq_char_def)
  also have "\<dots> \<longleftrightarrow> (of_char c = (43::nat) \<or> of_char c = (44::nat) \<or>
                        of_char c = (45::nat) \<or> of_char c = (46::nat))"
    by arith
  also have "\<dots> \<longleftrightarrow> (c = CHR ''+'' \<or> c = CHR '','' \<or> c = CHR ''-'' \<or> c = CHR ''.'')"
    by (auto intro: eq [of _ "CHR ''+''"] eq [of _ "CHR '',''"] eq [of _ "CHR ''-''"]
        eq [of _ "CHR ''.''"])
  finally show ?thesis .
qed

lemma in_class_idRegex: "in_class idRegex c \<longleftrightarrow> (spec_id_char c \<or> c = CHR '','')"
  unfolding in_class_def idRegex_def spec_id_char_def
  by (simp only: list_ex_Cons_iff list_ex_Nil_iff in_item.simps(2) range_plus_dot) blast

text \<open>
  What \<open>validateID\<close> accepts: the non-empty identifiers made of the characters the
  specification names and of commas.
\<close>

lemma validateID_accepts_iff:
  "validateID ident = None \<longleftrightarrow>
     ident \<noteq> [] \<and> (\<forall>c\<in>set ident. spec_id_char c \<or> c = CHR '','')"
  by (simp add: validateID_def MatchString_def list_all_iff in_class_idRegex)

text \<open>
  An identifier that \<open>validateID\<close> rejects ends \<open>Create\<close> and \<open>Load\<close> at once: the host is
  not changed, and not read either, since the result is the same on every host.
\<close>

lemma Create_invalid_id:
  "validateID ident = Some e \<Longrightarrow>
     Create lib ident sp conf bundleDir consoleSocket pidFile w = (Err e, w)"
  by (simp add: Create_def)

lemma Load_invalid_id: "validateID ident = Some e \<Longrightarrow> Load lib w rootDir ident = Err e"
  by (simp add: Load_def)

text \<open>An identifier that passes is never reported as invalid by \<open>Load\<close>.\<close>

lemma Load_valid_id:
  "validateID ident = None \<Longrightarrow> Load lib w rootDir ident \<noteq> Err (InvalidID x)"
  by (auto simp: Load_def Let_def sandbox_IsRunning_def
      split: sum.splits option.splits outcome.splits bool.splits)

text \<open>
  C4, as the claim states it, fails at two identifiers. The empty identifier holds no
  character outside the set of the specification and is rejected. The identifier
  \<^verbatim>\<open>a,b\<close> does not match the identifier syntax of the specification and is accepted:
  \<open>Load\<close> goes on to the file system and fails there only because no such container
  exists.
\<close>

theorem validateID_counterexample:
  "validateID [] = Some (InvalidID []) \<and> list_all spec_id_char [] \<and>
   validateID ''a,b'' = None \<and> \<not> spec_id_match ''a,b'' \<and>
   Load example_lib example_world [''run''] ''a,b'' = Err (NotExist ''a,b'')"
  by (simp add: id_defs spec_id_match_def spec_id_char_def Load_def Join_def exists_def Stat_def
      example_world_def)

text \<open>
  C4, amended. A non-empty identifier made of word characters, plus, hyphen and dot is
  accepted: it passes \<open>validateID\<close>, and \<open>Load\<close> does not report it as invalid. An identifier that is empty, or that holds a character other than a word
  character, plus, comma, hyphen and dot, is rejected: \<open>Create\<close> returns the error and
  leaves the host as it is, and \<open>Load\<close> returns the error whatever the host holds.
\<close>

theorem validateID_accepts_rejects:
  "(spec_id_match ident \<longrightarrow>
      validateID ident = None \<and> Load lib w rootDir ident \<noteq> Err (InvalidID ident)) \<and>
   (ident = [] \<or> \<not> list_all (\<lambda>c. spec_id_char c \<or> c = CHR '','') ident \<longrightarrow>
      validateID ident = Some (InvalidID ident) \<and>
      Create lib ident sp conf bundleDir consoleSocket pidFile w = (Err (InvalidID ident), w) \<and>
      Load lib w rootDir ident = Err (InvalidID ident))"
proof -
  have acc: "validateID ident = None" if "spec_id_match ident"
    using that by (auto simp: spec_id_match_def validateID_accepts_iff list_all_iff)
  have rej: "validateID ident = Some (InvalidID ident)"
    if "ident = [] \<or> \<not> list_all (\<lambda>c. spec_id_char c \<or> c = CHR '','') ident"
  proof -
    from that have "validateID ident \<noteq> None"
      by (auto simp: validateID_accepts_iff list_all_iff)
    then show ?thesis by (simp add: validateID_def split: if_splits)
  qed
  show ?thesis
    using acc rej by (simp add: Create_invalid_id Load_invalid_id Load_valid_id)
qed

theorem validateID_accepts_rejects_witness:
  "validateID ''c-1.x+y_Z'' = None \<and>
   Load example_lib example_world [''run''] ''c-1.x+y_Z'' \<noteq> Err (InvalidID ''c-1.x+y_Z'') \<and>
   validateID ''bad id!'' = Some (InvalidID ''bad id!'') \<and>
   Create example_lib ''bad id!'' (Some example_spec) \<lparr>RootDir = [''run'']\<rparr> [''bundle''] [] None
     example_world = (Err (InvalidID ''bad id!''), example_world) \<and>
   Load example_lib example_world [''run''] ''bad id!'' = Err (InvalidID ''bad id!'')"
proof -
  have a: "spec_id_match ''c-1.x+y_Z''"
    by (simp add: spec_id_match_def spec_id_char_def)
  have b: "''bad id!'' = [] \<or> \<not> list_all (\<lambda>c. spec_id_char c \<or> c = CHR '','') ''bad id!''"
    by (simp add: spec_id_char_def)
  show ?thesis
    using validateID_accepts_rejects [of "''c-1.x+y_Z''" example_lib example_world "[''run'']"]
      validateID_accepts_rejects [of "''bad id!''" example_lib example_world "[''run'']"
        "Some example_spec" "\<lparr>RootDir = [''run'']\<rparr>" "[''bundle'']" "[]" None] a b
    by simp
qed

subsection \<open>Create\<close>

text \<open>
  C2. \<open>Create\<close> of the container \<^verbatim>\<open>c3\<close> with a pid file in a directory that does not
  exist: the sandbox is launched and the record is saved, writing the pid file fails, and
  \<open>Create\<close> returns that error after tearing down the sandbox only. The directory of the
  container and its metadata file stay on the host.
\<close>

theorem Create_pid_file_failure_keeps_record:
  "Create example_lib ''c3'' (Some example_spec) \<lparr>RootDir = [''run'']\<rparr> [''bundle''] []
     (Some [''missing'', ''c3.pid'']) example_world =
   (Err (PidFileFailed ENOENT),
    example_world\<lparr>files := files example_world @
      [([''run'', ''c3''], Dir),
       ([''run'', ''c3'', ''meta.json''], File ''{id:c3,status:created,sandbox:{id:c3,pid:43}}'')]\<rparr>) \<and>
   exists (files example_world @
      [([''run'', ''c3''], Dir),
       ([''run'', ''c3'', ''meta.json''], File ''{id:c3,status:created,sandbox:{id:c3,pid:43}}'')])
     [''run'', ''c3'', ''meta.json'']"
  by (simp add: Create_def id_defs example_lib_def example_world_def Join_def exists_def Stat_def
      sandbox_Create_def save_def MkdirAll_def example_Marshal_def Itoa_def Itoa_nat.simps
      metadataFilename_def WriteFile_def OpenTrunc_def WriteOpen_def Pid_def sandbox_Destroy_def)

subsection \<open>The exit code\<close>

text \<open>
  The masks and the shift of the wait status in arithmetic: the low seven bits are the
  status modulo 128, the second byte is the status divided by 256, modulo 256.
\<close>

lemma and_255_mod: "(x :: int) AND 0xFF = x mod 256"
proof -
  have "(0xFF :: int) = mask 8" by (simp add: mask_eq_exp_minus_1)
  then have "x AND 0xFF = take_bit 8 x" by (simp only: take_bit_eq_mask)
  then show ?thesis by (simp add: take_bit_eq_mod)
qed

lemma and_127_mod: "(x :: int) AND 0x7F = x mod 128"
proof -
  have "(0x7F :: int) = mask 7" by (simp add: mask_eq_exp_minus_1)
  then have "x AND 0x7F = take_bit 7 x" by (simp only: take_bit_eq_mask)
  then show ?thesis by (simp add: take_bit_eq_mod)
qed

lemma low7_mod: "uint ((ws :: 32 word) AND 0x7F) = uint ws mod 128"
  by (simp add: uint_and and_127_mod)

lemma uint_drop8: "uint (drop_bit 8 (ws :: 32 word)) = uint ws div 256"
proof -
  have "uint (drop_bit 8 ws) = drop_bit 8 (take_bit LENGTH(32) (uint ws))"
    by (rule unsigned_drop_bit_eq)
  also have "take_bit LENGTH(32) (uint ws) = uint ws"
    by (simp add: take_bit_eq_mod uint_bounded [where 'a = 32, simplified])
  finally show ?thesis by (simp add: drop_bit_eq_div)
qed

lemma byte2_mod: "uint (drop_bit 8 (ws :: 32 word)) AND 0xFF = uint ws div 256 mod 256"
  by (simp only: and_255_mod uint_drop8)


lemma Exited_iff: "WaitStatus_Exited ws \<longleftrightarrow> uint ws mod 128 = 0"
proof -
  have "ws AND 0x7F = 0 \<longleftrightarrow> uint (ws AND 0x7F) = 0" by (simp add: uint_0_iff)
  then show ?thesis by (simp add: WaitStatus_Exited_def low7_mod)
qed

lemma Signaled_iff:
  "WaitStatus_Signaled ws \<longleftrightarrow> uint ws mod 128 \<noteq> 0 \<and> uint ws mod 128 \<noteq> 127"
proof -
  have z: "ws AND 0x7F = 0 \<longleftrightarrow> uint (ws AND 0x7F) = 0" by (simp add: uint_0_iff)
  have "ws AND 0x7F = 0x7F \<longleftrightarrow> uint (ws AND 0x7F) = uint (0x7F :: 32 word)"
    by (simp only: word_uint_eq_iff)
  then have s: "ws AND 0x7F = 0x7F \<longleftrightarrow> uint (ws AND 0x7F) = 127" by simp
  show ?thesis unfolding WaitStatus_Signaled_def z s low7_mod by auto
qed

lemma os_Exit_byte: "0 \<le> n \<Longrightarrow> n \<le> 255 \<Longrightarrow> os_Exit n = n"
  by (simp add: os_Exit_def and_255_mod)

lemma os_Exit_minus1: "os_Exit (- 1) = 255"
  by (simp add: os_Exit_def and_255_mod)

text \<open>
  C9. The exit code of the process, from the code of the subcommand and the wait status.
  When the subcommand succeeded and the process was terminated by a signal, it is 128
  plus the number of that signal, which is the low seven bits of the wait status and lies
  between 1 and 126. When the subcommand succeeded and the process exited, it is the exit
  status of the process, the second byte of the wait status, between 0 and 255. A wait
  status that is neither, which is that of a stopped process with all of the low seven
  bits set, has no exit status: \<^verbatim>\<open>ExitStatus()\<close> is -1 and the exit code is 255. When the
  subcommand did not succeed, the exit code is 128.
\<close>

theorem main_exit_code:
  "(subcmdCode = ExitSuccess \<and> WaitStatus_Signaled ws \<longrightarrow>
      main_exit subcmdCode ws = 128 + WaitStatus_Signal ws \<and>
      WaitStatus_Signal ws = uint (ws AND 0x7F) \<and>
      WaitStatus_Signal ws = uint ws mod 128 \<and>
      1 \<le> WaitStatus_Signal ws \<and> WaitStatus_Signal ws \<le> 126 \<and>
      exit_code subcmdCode ws = 128 + uint ws mod 128) \<and>
   (subcmdCode = ExitSuccess \<and> WaitStatus_Exited ws \<longrightarrow>
      main_exit subcmdCode ws = WaitStatus_ExitStatus ws \<and>
      WaitStatus_ExitStatus ws = uint (drop_bit 8 ws) AND 0xFF \<and>
      WaitStatus_ExitStatus ws = uint ws div 256 mod 256 \<and>
      0 \<le> WaitStatus_ExitStatus ws \<and> WaitStatus_ExitStatus ws \<le> 255 \<and>
      exit_code subcmdCode ws = uint ws div 256 mod 256) \<and>
   (subcmdCode = ExitSuccess \<and> \<not> WaitStatus_Signaled ws \<and> \<not> WaitStatus_Exited ws \<longrightarrow>
      uint ws mod 128 = 127 \<and> main_exit subcmdCode ws = - 1 \<and> exit_code subcmdCode ws = 255) \<and>
   (subcmdCode \<noteq> ExitSuccess \<longrightarrow>
      main_exit subcmdCode ws = 128 \<and> exit_code subcmdCode ws = 128)"
proof (intro conjI impI)
  assume a: "subcmdCode = ExitSuccess \<and> WaitStatus_Signaled ws"
  then have r: "uint ws mod 128 \<noteq> 0" "uint ws mod 128 \<noteq> 127" by (simp_all add: Signaled_iff)
  have b: "0 \<le> uint ws mod 128" "uint ws mod 128 < 128" by simp_all
  from a show "main_exit subcmdCode ws = 128 + WaitStatus_Signal ws" by (simp add: main_exit_def)
  from a show "WaitStatus_Signal ws = uint (ws AND 0x7F)" by (simp add: WaitStatus_Signal_def)
  from a show s: "WaitStatus_Signal ws = uint ws mod 128"
    by (simp add: WaitStatus_Signal_def low7_mod)
  from r b show "1 \<le> WaitStatus_Signal ws" unfolding s by linarith
  from r b show "WaitStatus_Signal ws \<le> 126" unfolding s by linarith
  from r b have "0 \<le> 128 + uint ws mod 128" "128 + uint ws mod 128 \<le> 255" by linarith+
  then have "os_Exit (128 + uint ws mod 128) = 128 + uint ws mod 128" by (rule os_Exit_byte)
  with a s show "exit_code subcmdCode ws = 128 + uint ws mod 128"
    by (simp add: exit_code_def main_exit_def)
next
  assume a: "subcmdCode = ExitSuccess \<and> WaitStatus_Exited ws"
  then have n: "\<not> WaitStatus_Signaled ws" by (simp add: Exited_iff Signaled_iff)
  from a n show "main_exit subcmdCode ws = WaitStatus_ExitStatus ws" by (simp add: main_exit_def)
  from a show "WaitStatus_ExitStatus ws = uint (drop_bit 8 ws) AND 0xFF"
    by (simp add: WaitStatus_ExitStatus_def)
  from a show e: "WaitStatus_ExitStatus ws = uint ws div 256 mod 256"
    by (simp only: WaitStatus_ExitStatus_def byte2_mod) simp
  show "0 \<le> WaitStatus_ExitStatus ws" unfolding e by simp
  have "uint ws div 256 mod 256 < 256" by simp
  then show le: "WaitStatus_ExitStatus ws \<le> 255" unfolding e by linarith
  have "os_Exit (uint ws div 256 mod 256) = uint ws div 256 mod 256"
    using le unfolding e by (intro os_Exit_byte) simp_all
  with a n e show "exit_code subcmdCode ws = uint ws div 256 mod 256"
    by (simp add: exit_code_def main_exit_def)
next
  assume a: "subcmdCode = ExitSuccess \<and> \<not> WaitStatus_Signaled ws \<and> \<not> WaitStatus_Exited ws"
  then show "uint ws mod 128 = 127" by (auto simp: Exited_iff Signaled_iff)
  from a show m: "main_exit subcmdCode ws = - 1"
    by (simp add: main_exit_def WaitStatus_ExitStatus_def)
  show "exit_code subcmdCode ws = 255" by (simp add: exit_code_def m os_Exit_minus1)
next
  assume a: "subcmdCode \<noteq> ExitSuccess"
  then show m: "main_exit subcmdCode ws = 128" by (simp add: main_exit_def)
  show "exit_code subcmdCode ws = 128" by (simp add: exit_code_def m os_Exit_byte)
qed

theorem main_exit_code_witness:
  "main_exit ExitSuccess 0x0009 = 137 \<and> exit_code ExitSuccess 0x0009 = 137 \<and>
   exit_code ExitSuccess 0x008B = 139 \<and>
   main_exit ExitSuccess 0x0700 = 7 \<and> exit_code ExitSuccess 0x0700 = 7 \<and>
   exit_code ExitSuccess 0x0000 = 0 \<and> exit_code ExitSuccess 0xFF00 = 255 \<and>
   exit_code ExitSuccess 0x12A00 = 42 \<and>
   main_exit ExitSuccess 0x137F = - 1 \<and> exit_code ExitSuccess 0x137F = 255 \<and>
   main_exit ExitFailure 0x0700 = 128 \<and> exit_code ExitUsageError 0x0009 = 128"
proof -
  have s: "WaitStatus_Signaled 0x0009" "WaitStatus_Signaled 0x008B"
    by (simp_all add: WaitStatus_Signaled_def)
  have e: "WaitStatus_Exited 0x0700" "WaitStatus_Exited 0x0000" "WaitStatus_Exited 0xFF00"
    "WaitStatus_Exited 0x12A00"
    by (simp_all add: WaitStatus_Exited_def)
  have t: "\<not> WaitStatus_Signaled 0x137F \<and> \<not> WaitStatus_Exited 0x137F"
    by (simp add: WaitStatus_Signaled_def WaitStatus_Exited_def)
  have f: "ExitFailure \<noteq> ExitSuccess" "ExitUsageError \<noteq> ExitSuccess" by simp_all
  show ?thesis
    using main_exit_code [of ExitSuccess "0x0009"] main_exit_code [of ExitSuccess "0x008B"]
      main_exit_code [of ExitSuccess "0x0700"] main_exit_code [of ExitSuccess "0x0000"]
      main_exit_code [of ExitSuccess "0xFF00"] main_exit_code [of ExitSuccess "0x12A00"]
      main_exit_code [of ExitSuccess "0x137F"]
      main_exit_code [of ExitFailure "0x0700"] main_exit_code [of ExitUsageError "0x0009"]
      s e t f
    by simp
qed

end
